theory Spec2Isabelle
  imports Main
begin

section \<open>Values, errors and rows\<close>

text \<open>
  Values that travel in request bodies and JSON responses. \<open>JUndefined\<close> is what
  reading an absent key gives. Numbers are integers here; no handler computes with
  fractions.
\<close>

datatype json =
    JUndefined
  | JNull
  | JBool bool
  | JNum int
  | JStr string
  | JArr "json list"
  | JObj "(string \<times> json) list"

text \<open>JavaScript truthiness, as the tests \<open>!x\<close> and \<open>a || b\<close> of the handlers read it.\<close>

fun truthy :: "json \<Rightarrow> bool" where
  "truthy JUndefined = False"
| "truthy JNull = False"
| "truthy (JBool b) = b"
| "truthy (JNum n) = (n \<noteq> 0)"
| "truthy (JStr s) = (s \<noteq> [])"
| "truthy (JArr xs) = True"
| "truthy (JObj kvs) = True"

text \<open>Reading a key of an object: \<open>undefined\<close> when the key is absent.\<close>

definition field :: "string \<Rightarrow> (string \<times> json) list \<Rightarrow> json" where
  "field k obj = (case map_of obj k of None \<Rightarrow> JUndefined | Some v \<Rightarrow> v)"

text \<open>
  What a JavaScript evaluation can throw: a reference to an unbound identifier, a
  type error (a property of \<open>undefined\<close>, a call of a non-function), a rejected
  \<open>await\<close> on the backend client, and the error object of a backend reply re-thrown
  by \<open>if (error) throw error\<close>.
\<close>

datatype js_error =
    ReferenceError string
  | TypeError string
  | Rejected string
  | Raised string

type_synonym 'a js = "js_error + 'a"

definition try_catch :: "'a js \<Rightarrow> (js_error \<Rightarrow> 'a js) \<Rightarrow> 'a js" where
  "try_catch body handler = (case body of Inl e \<Rightarrow> handler e | Inr v \<Rightarrow> Inr v)"

text \<open>
  The rows of the managed store. Columns that receive values of a request body keep
  them as \<open>json\<close>; the usage counters are written by the server with numbers only;
  timestamps are instants (their ISO rendering is not modelled).
\<close>

record profile =
  profile_id :: string
  profile_email :: json
  full_name :: json
  avatar_url :: json
  subscription_tier :: string
  api_usage_count :: int
  api_usage_limit :: int
  profile_updated_at :: nat

record conversation =
  conv_id :: string
  conv_user_id :: string
  title :: json
  thread_id :: json
  is_archived :: json
  conv_created_at :: nat
  conv_updated_at :: nat

record message =
  msg_id :: string
  conversation_id :: string
  msg_user_id :: string
  role :: json
  content :: json
  metadata :: json
  msg_created_at :: nat

record usage =
  usage_user_id :: string
  endpoint :: string
  tokens_used :: int
  cost_cents :: int

text \<open>
  The user object of the auth provider: \<open>user_email = None\<close> is an absent
  \<open>email\<close>, \<open>meta_full_name\<close> is \<open>user.user_metadata?.full_name\<close>.
\<close>

record user =
  user_id :: string
  user_email :: "string option"
  email_confirmed_at :: json
  meta_full_name :: json

section \<open>The managed backend\<close>

text \<open>
  The backend is an external collaborator. The world holds its tables, a log of the
  calls made to it, and what the code cannot decide: the fate of the n-th call to the
  store (it proceeds, it replies with an error, or the awaited call rejects), the
  answer of the auth provider to the n-th call (the awaited call rejects, or it
  resolves to user, session and error), the identifier the store generates for a row
  inserted by the n-th call, the clock, the process environment, and which tiers are
  over their rate limit.
\<close>

datatype fate = Proceeds | Fails string | Throws string

datatype auth_data =
  AuthData (data_user: "user option") (data_session: json) (auth_error: "string option")

datatype auth_reply = AuthRejects string | AuthResolves auth_data

datatype call = Auth string | Store string string

record world =
  user_profiles :: "profile list"
  conversations :: "conversation list"
  messages :: "message list"
  api_usage :: "usage list"
  calls :: "call list"
  fates :: "nat \<Rightarrow> fate"
  provider :: "nat \<Rightarrow> auth_reply"
  ids :: "nat \<Rightarrow> string"
  now :: nat
  env :: "string \<Rightarrow> string option"
  over_limit :: "string \<Rightarrow> bool"

text \<open>The \<open>{ data, error }\<close> object a query resolves to.\<close>

datatype 'a pg = Pg (pg_data: "'a option") (pg_error: "string option")

definition log_call :: "call \<Rightarrow> world \<Rightarrow> world" where
  "log_call c w = w\<lparr>calls := calls w @ [c]\<rparr>"

definition fate_now :: "world \<Rightarrow> fate" where
  "fate_now w = fates w (length (calls w))"

text \<open>
  Awaiting a query on the store: the call is logged; when it proceeds the store runs
  it (\<open>run\<close>), when it fails the reply carries the error and no data and the tables
  stay as they are, when it throws the \<open>await\<close> rejects.
\<close>

definition await :: "world \<Rightarrow> call \<Rightarrow> (world \<Rightarrow> 'a pg \<times> world) \<Rightarrow> 'a pg js \<times> world" where
  "await w c run =
     (case fate_now w of
        Proceeds \<Rightarrow> (case run (log_call c w) of (r, w') \<Rightarrow> (Inr r, w'))
      | Fails m \<Rightarrow> (Inr (Pg None (Some m)), log_call c w)
      | Throws m \<Rightarrow> (Inl (Rejected m), log_call c w))"

text \<open>Awaiting a call on the auth provider: logged, answered by the provider.\<close>

definition await_auth :: "world \<Rightarrow> string \<Rightarrow> auth_data js \<times> world" where
  "await_auth w name =
     (case provider w (length (calls w)) of
        AuthRejects m \<Rightarrow> (Inl (Rejected m), log_call (Auth name) w)
      | AuthResolves d \<Rightarrow> (Inr d, log_call (Auth name) w))"

text \<open>
  \<open>.single()\<close>: exactly one row, or an error and no data.
\<close>

definition single :: "'r list \<Rightarrow> 'r pg" where
  "single rs = (case rs of [r] \<Rightarrow> Pg (Some r) None | _ \<Rightarrow> Pg None (Some ''PGRST116''))"

text \<open>\<open>.order(col, { ascending })\<close> on a timestamp column.\<close>

definition order :: "('r \<Rightarrow> nat) \<Rightarrow> bool \<Rightarrow> 'r list \<Rightarrow> 'r list" where
  "order col ascending rs = (if ascending then sort_key col rs else rev (sort_key col rs))"

text \<open>
  \<open>.update(u).eq(..).eq(..).select().single()\<close>: the rows that match are changed and
  returned through \<open>single\<close>; unless exactly one row matches, nothing is changed (no
  row to change, or the store rolls the change back) and the reply is the error.
\<close>

definition update_single :: "('r \<Rightarrow> bool) \<Rightarrow> ('r \<Rightarrow> 'r) \<Rightarrow> 'r list \<Rightarrow> 'r pg \<times> 'r list" where
  "update_single matches change rs =
     (case filter matches rs of
        [r] \<Rightarrow> (Pg (Some (change r)) None, map (\<lambda>x. if matches x then change x else x) rs)
      | other \<Rightarrow> (single other, rs))"

text \<open>
  \<open>const { data, error } = await q; if (error) throw error; return data;\<close>
\<close>

definition data_or_throw :: "'a pg js \<Rightarrow> 'a option js" where
  "data_or_throw r =
     (case r of
        Inl e \<Rightarrow> Inl e
      | Inr (Pg d None) \<Rightarrow> Inr d
      | Inr (Pg d (Some m)) \<Rightarrow> Inl (Raised m))"

section \<open>config/supabase.js: the client adapter\<close>

text \<open>\<open>verifyToken\<close>: \<open>supabase.auth.getUser(token)\<close>; the user, or null on any failure.\<close>

definition verifyToken :: "world \<Rightarrow> string \<Rightarrow> user option js \<times> world" where
  "verifyToken w token =
     (case await_auth w ''getUser'' of (r, w') \<Rightarrow>
        (try_catch
           (case r of
              Inl e \<Rightarrow> Inl e
            | Inr (AuthData u s None) \<Rightarrow> Inr u
            | Inr (AuthData u s (Some m)) \<Rightarrow> Inl (Raised m))
           (\<lambda>e. Inr None), w'))"

text \<open>\<open>getUserProfile\<close>: select from user_profiles where id = userId, single.\<close>

definition getUserProfile :: "world \<Rightarrow> string \<Rightarrow> profile option js \<times> world" where
  "getUserProfile w userId =
     (case await w (Store ''user_profiles'' ''select'')
             (\<lambda>w0. (single (filter (\<lambda>p. profile_id p = userId) (user_profiles w0)), w0)) of
        (r, w') \<Rightarrow> (try_catch (data_or_throw r) (\<lambda>e. Inr None), w'))"

text \<open>
  \<open>createUserProfile\<close>: the row to insert is built first
  (\<open>user.user_metadata?.full_name || user.email.split('@')[0]\<close> throws a TypeError when
  the name is falsy and the user has no email), then inserted and read back.
\<close>

definition new_profile_row :: "world \<Rightarrow> user \<Rightarrow> profile js" where
  "new_profile_row w u =
     (case (if truthy (meta_full_name u) then Inr (meta_full_name u)
            else (case user_email u of
                    None \<Rightarrow> Inl (TypeError ''user.email is undefined'')
                  | Some e \<Rightarrow> Inr (JStr (takeWhile (\<lambda>c. c \<noteq> CHR ''@'') e)))) of
        Inl e \<Rightarrow> Inl e
      | Inr name \<Rightarrow>
          Inr \<lparr>profile_id = user_id u,
               profile_email = (case user_email u of None \<Rightarrow> JUndefined | Some e \<Rightarrow> JStr e),
               full_name = name,
               avatar_url = JNull,
               subscription_tier = ''free'',
               api_usage_count = 0,
               api_usage_limit = 100,
               profile_updated_at = now w\<rparr>)"

definition createUserProfile :: "world \<Rightarrow> user \<Rightarrow> profile option js \<times> world" where
  "createUserProfile w u =
     (case new_profile_row w u of
        Inl e \<Rightarrow> (try_catch (Inl e) (\<lambda>e. Inr None), w)
      | Inr row \<Rightarrow>
          (case await w (Store ''user_profiles'' ''insert'')
                  (\<lambda>w0. (single [row], w0\<lparr>user_profiles := user_profiles w0 @ [row]\<rparr>)) of
             (r, w') \<Rightarrow> (try_catch (data_or_throw r) (\<lambda>e. Inr None), w')))"

text \<open>
  The client object that \<open>createClient\<close> of @supabase/supabase-js returns (package.json
  asks for version 2): its members. Calling any other name on it calls \<open>undefined\<close>,
  a TypeError. It has no member \<open>sql\<close>.
\<close>

definition supabase_members :: "string list" where
  "supabase_members =
     [''auth'', ''realtime'', ''storage'', ''functions'', ''from'', ''schema'', ''rpc'',
      ''channel'', ''getChannels'', ''removeChannel'', ''removeAllChannels'']"

definition call_member :: "string list \<Rightarrow> string \<Rightarrow> unit js" where
  "call_member members name =
     (if name \<in> set members then Inr ()
      else Inl (TypeError (''supabase.'' @ name @ '' is not a function'')))"

text \<open>
  \<open>updateApiUsage\<close>: the usage row is inserted (its reply is not looked at); then the
  update object is built with the template tag \<open>supabase.sql\<close>, and with it the counter
  of the user's profile would be raised; true unless something failed.
\<close>

definition updateApiUsage :: "world \<Rightarrow> string \<Rightarrow> int \<Rightarrow> int \<Rightarrow> bool js \<times> world" where
  "updateApiUsage w userId tokensUsed costCents =
     (case await w (Store ''api_usage'' ''insert'')
             (\<lambda>w0. (Pg (None :: unit option) None,
                    w0\<lparr>api_usage := api_usage w0 @
                         [\<lparr>usage_user_id = userId, endpoint = ''/api/chat/completion'',
                           tokens_used = tokensUsed, cost_cents = costCents\<rparr>]\<rparr>)) of
        (Inl e, w1) \<Rightarrow> (try_catch (Inl e) (\<lambda>e. Inr False), w1)
      | (Inr ignored, w1) \<Rightarrow>
          (case call_member supabase_members ''sql'' of
             Inl e \<Rightarrow> (try_catch (Inl e) (\<lambda>e. Inr False), w1)
           | Inr tag \<Rightarrow>
               (case await w1 (Store ''user_profiles'' ''update'')
                       (\<lambda>w0. (Pg (None :: unit option) None,
                              w0\<lparr>user_profiles :=
                                   map (\<lambda>p. if profile_id p = userId
                                            then p\<lparr>api_usage_count :=
                                                     api_usage_count p + tokensUsed\<rparr>
                                            else p)
                                       (user_profiles w0)\<rparr>)) of
                  (r, w2) \<Rightarrow>
                    (try_catch
                       (case data_or_throw r of Inl e \<Rightarrow> Inl e | Inr d \<Rightarrow> Inr True)
                       (\<lambda>e. Inr False), w2))))"

text \<open>\<open>checkApiQuota\<close>: false without a profile, else usage count < usage limit.\<close>

definition checkApiQuota :: "world \<Rightarrow> string \<Rightarrow> bool js \<times> world" where
  "checkApiQuota w userId =
     (case getUserProfile w userId of
        (r, w') \<Rightarrow>
          (try_catch
             (case r of
                Inl e \<Rightarrow> Inl e
              | Inr None \<Rightarrow> Inr False
              | Inr (Some p) \<Rightarrow> Inr (api_usage_count p < api_usage_limit p))
             (\<lambda>e. Inr False), w'))"

text \<open>
  \<open>createConversation\<close>: the defaults of the parameters apply to \<open>undefined\<close>; the
  store generates the identifier, leaves the row unarchived and stamps it.
\<close>

definition createConversation :: "world \<Rightarrow> string \<Rightarrow> json \<Rightarrow> json \<Rightarrow> conversation option js \<times> world" where
  "createConversation w userId title0 threadId0 =
     (let title1 = (if title0 = JUndefined then JStr ''New Conversation'' else title0);
          threadId = (if threadId0 = JUndefined then JNull else threadId0);
          row = \<lparr>conv_id = ids w (length (calls w)), conv_user_id = userId, title = title1,
                 thread_id = threadId, is_archived = JBool False,
                 conv_created_at = now w, conv_updated_at = now w\<rparr>
      in case await w (Store ''conversations'' ''insert'')
                (\<lambda>w0. (single [row], w0\<lparr>conversations := conversations w0 @ [row]\<rparr>)) of
           (r, w') \<Rightarrow> (try_catch (data_or_throw r) (\<lambda>e. Inr None), w'))"

text \<open>
  \<open>getUserConversations\<close>: the user's rows with \<open>is_archived = false\<close>, latest update
  first; the empty list on any failure.
\<close>

definition getUserConversations :: "world \<Rightarrow> string \<Rightarrow> conversation list option js \<times> world" where
  "getUserConversations w userId =
     (case await w (Store ''conversations'' ''select'')
             (\<lambda>w0. (Pg (Some (order conv_updated_at False
                                (filter (\<lambda>c. is_archived c = JBool False)
                                   (filter (\<lambda>c. conv_user_id c = userId) (conversations w0)))))
                        None, w0)) of
        (r, w') \<Rightarrow> (try_catch (data_or_throw r) (\<lambda>e. Inr (Some [])), w'))"

text \<open>\<open>saveMessage\<close>: \<open>metadata\<close> defaults to the empty object; insert and read back.\<close>

definition saveMessage :: "world \<Rightarrow> string \<Rightarrow> string \<Rightarrow> json \<Rightarrow> json \<Rightarrow> json \<Rightarrow> message option js \<times> world" where
  "saveMessage w conversationId userId role0 content0 metadata0 =
     (let row = \<lparr>msg_id = ids w (length (calls w)), conversation_id = conversationId,
                 msg_user_id = userId, role = role0, content = content0,
                 metadata = (if metadata0 = JUndefined then JObj [] else metadata0),
                 msg_created_at = now w\<rparr>
      in case await w (Store ''messages'' ''insert'')
                (\<lambda>w0. (single [row], w0\<lparr>messages := messages w0 @ [row]\<rparr>)) of
           (r, w') \<Rightarrow> (try_catch (data_or_throw r) (\<lambda>e. Inr None), w'))"

text \<open>
  \<open>getConversationMessages\<close>: the rows of the conversation and the user, by creation
  time ascending; the empty list on any failure.
\<close>

definition getConversationMessages :: "world \<Rightarrow> string \<Rightarrow> string \<Rightarrow> message list option js \<times> world" where
  "getConversationMessages w conversationId userId =
     (case await w (Store ''messages'' ''select'')
             (\<lambda>w0. (Pg (Some (order msg_created_at True
                                (filter (\<lambda>m. msg_user_id m = userId)
                                   (filter (\<lambda>m. conversation_id m = conversationId) (messages w0)))))
                        None, w0)) of
        (r, w') \<Rightarrow> (try_catch (data_or_throw r) (\<lambda>e. Inr (Some [])), w'))"

text \<open>
  \<open>updateConversation\<close>: the update object holds the keys that were set
  (\<open>None\<close> is an absent key); the row with this id and this owner is changed.
\<close>

record conv_updates =
  set_title :: "json option"
  set_is_archived :: "json option"

definition apply_conv_updates :: "conv_updates \<Rightarrow> conversation \<Rightarrow> conversation" where
  "apply_conv_updates u c =
     c\<lparr>title := (case set_title u of None \<Rightarrow> title c | Some v \<Rightarrow> v),
       is_archived := (case set_is_archived u of None \<Rightarrow> is_archived c | Some v \<Rightarrow> v)\<rparr>"

definition updateConversation :: "world \<Rightarrow> string \<Rightarrow> string \<Rightarrow> conv_updates \<Rightarrow> conversation option js \<times> world" where
  "updateConversation w conversationId userId updates =
     (case await w (Store ''conversations'' ''update'')
             (\<lambda>w0. case update_single (\<lambda>c. conv_id c = conversationId \<and> conv_user_id c = userId)
                          (apply_conv_updates updates) (conversations w0) of
                      (r, rows) \<Rightarrow> (r, w0\<lparr>conversations := rows\<rparr>)) of
        (r, w') \<Rightarrow> (try_catch (data_or_throw r) (\<lambda>e. Inr None), w'))"

section \<open>Requests, responses and routing\<close>

datatype http_method = GET | POST | PUT | DELETE

text \<open>
  A request as a handler sees it: the path below the router's mount point as its
  segments, the bearer token of the Authorization header (\<open>None\<close> without one), the
  parsed JSON body, the parameters bound by the route, and what the authentication
  middleware attaches.
\<close>

record request =
  req_method :: http_method
  req_path :: "string list"
  token :: "string option"
  body :: "(string \<times> json) list"
  params :: "(string \<times> string) list"
  req_user :: "user option"
  req_profile :: "profile option"

record response =
  status :: nat
  json_body :: "(string \<times> json) list"

text \<open>\<open>res.status(n).json(obj)\<close>; \<open>res.json(obj)\<close> is \<open>respond 200 obj\<close>.\<close>

definition respond :: "nat \<Rightarrow> (string \<times> json) list \<Rightarrow> response" where
  "respond n obj = \<lparr>status = n, json_body = obj\<rparr>"

definition param :: "request \<Rightarrow> string \<Rightarrow> string" where
  "param req k = (case map_of (params req) k of None \<Rightarrow> ''undefined'' | Some v \<Rightarrow> v)"

text \<open>Rows and users as they are serialised into a response.\<close>

definition time_json :: "nat \<Rightarrow> json" where
  "time_json t = JNum (int t)"

definition profile_json :: "profile \<Rightarrow> json" where
  "profile_json p =
     JObj [(''id'', JStr (profile_id p)), (''email'', profile_email p),
           (''full_name'', full_name p), (''avatar_url'', avatar_url p),
           (''subscription_tier'', JStr (subscription_tier p)),
           (''api_usage_count'', JNum (api_usage_count p)),
           (''api_usage_limit'', JNum (api_usage_limit p)),
           (''updated_at'', time_json (profile_updated_at p))]"

definition conversation_json :: "conversation \<Rightarrow> json" where
  "conversation_json c =
     JObj [(''id'', JStr (conv_id c)), (''user_id'', JStr (conv_user_id c)),
           (''title'', title c), (''thread_id'', thread_id c),
           (''is_archived'', is_archived c),
           (''created_at'', time_json (conv_created_at c)),
           (''updated_at'', time_json (conv_updated_at c))]"

definition message_json :: "message \<Rightarrow> json" where
  "message_json m =
     JObj [(''id'', JStr (msg_id m)), (''conversation_id'', JStr (conversation_id m)),
           (''user_id'', JStr (msg_user_id m)), (''role'', role m),
           (''content'', content m), (''metadata'', metadata m),
           (''created_at'', time_json (msg_created_at m))]"

definition nullable :: "('a \<Rightarrow> json) \<Rightarrow> 'a option \<Rightarrow> json" where
  "nullable enc x = (case x of None \<Rightarrow> JNull | Some v \<Rightarrow> enc v)"

text \<open>\<open>{ id, email, emailConfirmed: user.email_confirmed_at !== null }\<close>\<close>

definition user_summary :: "user \<Rightarrow> json" where
  "user_summary u =
     JObj [(''id'', JStr (user_id u)),
           (''email'', (case user_email u of None \<Rightarrow> JUndefined | Some e \<Rightarrow> JStr e)),
           (''emailConfirmed'', JBool (email_confirmed_at u \<noteq> JNull))]"

text \<open>
  A module can use the identifiers it binds. Reading any other identifier throws a
  ReferenceError.
\<close>

definition lookup_identifier :: "string list \<Rightarrow> string \<Rightarrow> unit js" where
  "lookup_identifier scope name =
     (if name \<in> set scope then Inr () else Inl (ReferenceError name))"

text \<open>
  Route paths: a literal segment or a named parameter, which matches any one
  non-empty segment.
\<close>

datatype seg = Lit string | Param string

fun match_path :: "seg list \<Rightarrow> string list \<Rightarrow> (string \<times> string) list option" where
  "match_path [] [] = Some []"
| "match_path (Lit s # ps) (x # xs) = (if s = x then match_path ps xs else None)"
| "match_path (Param n # ps) (x # xs) =
     (if x = [] then None
      else (case match_path ps xs of None \<Rightarrow> None | Some bound \<Rightarrow> Some ((n, x) # bound)))"
| "match_path ps xs = None"

datatype step = Halt response | Next request

type_synonym middleware = "world \<Rightarrow> request \<Rightarrow> step \<times> world"
type_synonym handler = "world \<Rightarrow> request \<Rightarrow> response \<times> world"

text \<open>
  The functions of a route run in order: a middleware that responds ends the chain,
  one that calls \<open>next()\<close> hands the request on.
\<close>

fun run_chain :: "middleware list \<Rightarrow> handler \<Rightarrow> handler" where
  "run_chain [] h w req = h w req"
| "run_chain (m # ms) h w req =
     (case m w req of
        (Halt r, w') \<Rightarrow> (r, w')
      | (Next req', w') \<Rightarrow> run_chain ms h w' req')"

text \<open>
  A router tries its routes in the order of their registration; the first route whose
  method and path match handles the request. No handler of this program calls
  \<open>next()\<close>, so no later route is tried after it. \<open>None\<close>: no route of the router
  matches.
\<close>

type_synonym route = "http_method \<times> seg list \<times> middleware list \<times> handler"

fun dispatch :: "route list \<Rightarrow> world \<Rightarrow> request \<Rightarrow> response option \<times> world" where
  "dispatch [] w req = (None, w)"
| "dispatch ((m, pat, mws, h) # rs) w req =
     (if m = req_method req
      then (case match_path pat (req_path req) of
              None \<Rightarrow> dispatch rs w req
            | Some bound \<Rightarrow>
                (case run_chain mws h w (req\<lparr>params := bound\<rparr>) of
                   (r, w') \<Rightarrow> (Some r, w')))
      else dispatch rs w req)"

section \<open>middleware/auth.js\<close>

text \<open>
  Modelled from the spec: the authentication middleware \<open>authenticateUser\<close> of
  middleware/auth.js, which is not among the sources. Without a bearer token it
  responds 401 and halts; it calls \<open>verifyToken\<close> and on null responds 401 and halts;
  otherwise it loads the profile (null when there is none), attaches user and profile
  to the request and lets the chain proceed.
\<close>

definition authenticateUser :: middleware where
  "authenticateUser w req =
     (case token req of
        None \<Rightarrow>
          (Halt (respond 401 [(''error'', JStr ''Unauthorized''),
                              (''message'', JStr ''Missing token'')]), w)
      | Some t \<Rightarrow>
          (case verifyToken w t of
             (Inr (Some u), w1) \<Rightarrow>
               (case getUserProfile w1 (user_id u) of
                  (Inr p, w2) \<Rightarrow> (Next (req\<lparr>req_user := Some u, req_profile := p\<rparr>), w2)
                | (Inl e, w2) \<Rightarrow> (Next (req\<lparr>req_user := Some u, req_profile := None\<rparr>), w2))
           | (other, w1) \<Rightarrow>
               (Halt (respond 401 [(''error'', JStr ''Unauthorized''),
                                   (''message'', JStr ''Invalid or expired token'')]), w1)))"

text \<open>
  Modelled from the spec: the rate-limit middleware \<open>rateLimitByTier\<close> of
  middleware/auth.js, which is not among the sources. It reads the tier of the
  attached profile (the free tier without a profile) and responds 429 when the tier's
  quota is used up; the quota table and its counters are the world's \<open>over_limit\<close>.
\<close>

definition rateLimitByTier :: middleware where
  "rateLimitByTier w req =
     (let tier = (case req_profile req of None \<Rightarrow> ''free'' | Some p \<Rightarrow> subscription_tier p)
      in if over_limit w tier
         then (Halt (respond 429 [(''error'', JStr ''Rate limit exceeded''),
                                  (''message'', JStr ''Too many requests'')]), w)
         else (Next req, w))"

section \<open>routes/conversations.js\<close>

text \<open>
  The identifiers the module binds: \<open>express\<close>, \<open>router\<close>, the five helpers it takes
  from config/supabase and the two middlewares. The client \<open>supabase\<close> is not among
  them.
\<close>

definition conversation_scope :: "string list" where
  "conversation_scope =
     [''express'', ''router'', ''createConversation'', ''getUserConversations'',
      ''getConversationMessages'', ''updateConversation'', ''saveMessage'',
      ''authenticateUser'', ''rateLimitByTier'']"

definition failure :: "string \<Rightarrow> string \<Rightarrow> (string \<times> json) list" where
  "failure e m = [(''error'', JStr e), (''message'', JStr m)]"

definition not_found :: response where
  "not_found =
     respond 404 (failure ''Conversation not found''
       ''The requested conversation does not exist or you do not have access to it'')"

text \<open>\<open>router.get('/')\<close>\<close>

definition list_conversations :: handler where
  "list_conversations w req =
     (let caught = respond 500 (failure ''Failed to fetch conversations''
                     ''An error occurred while fetching your conversations'')
      in case req_user req of
           None \<Rightarrow> (caught, w)
         | Some u \<Rightarrow>
             (case getUserConversations w (user_id u) of
                (Inr (Some cs), w') \<Rightarrow>
                  (respond 200 [(''success'', JBool True),
                                (''conversations'', JArr (map conversation_json cs)),
                                (''count'', JNum (int (length cs)))], w')
              | (other, w') \<Rightarrow> (caught, w')))"

text \<open>\<open>router.post('/')\<close>\<close>

definition create_conversation :: handler where
  "create_conversation w req =
     (let caught = respond 500 (failure ''Failed to create conversation''
                     ''An error occurred while creating the conversation'');
          title0 = field ''title'' (body req);
          threadId = field ''threadId'' (body req)
      in case req_user req of
           None \<Rightarrow> (caught, w)
         | Some u \<Rightarrow>
             (case createConversation w (user_id u)
                     (if truthy title0 then title0 else JStr ''New Conversation'') threadId of
                (Inr (Some c), w') \<Rightarrow>
                  (respond 201 [(''success'', JBool True),
                                (''conversation'', conversation_json c),
                                (''message'', JStr ''Conversation created successfully'')], w')
              | (other, w') \<Rightarrow> (caught, w')))"

text \<open>
  \<open>router.get('/:conversationId')\<close>: the conversation is looked up by id and owner
  through \<open>supabase\<close>, then its messages are read.
\<close>

definition get_conversation :: handler where
  "get_conversation w req =
     (let caught = respond 500 (failure ''Failed to fetch conversation''
                     ''An error occurred while fetching the conversation'');
          conversationId = param req ''conversationId''
      in case req_user req of
           None \<Rightarrow> (caught, w)
         | Some u \<Rightarrow>
             (case lookup_identifier conversation_scope ''supabase'' of
                Inl e \<Rightarrow> (caught, w)
              | Inr bound \<Rightarrow>
                  (case await w (Store ''conversations'' ''select'')
                          (\<lambda>w0. (single (filter (\<lambda>c. conv_user_id c = user_id u)
                                           (filter (\<lambda>c. conv_id c = conversationId)
                                              (conversations w0))), w0)) of
                     (Inl e, w1) \<Rightarrow> (caught, w1)
                   | (Inr (Pg conv convError), w1) \<Rightarrow>
                       (case (convError, conv) of
                          (None, Some c) \<Rightarrow>
                            (case getConversationMessages w1 conversationId (user_id u) of
                               (Inr (Some ms), w2) \<Rightarrow>
                                 (respond 200 [(''success'', JBool True),
                                               (''conversation'', conversation_json c),
                                               (''messages'', JArr (map message_json ms)),
                                               (''messageCount'', JNum (int (length ms)))], w2)
                             | (other, w2) \<Rightarrow> (caught, w2))
                        | other \<Rightarrow> (not_found, w1)))))"

text \<open>\<open>router.put('/:conversationId')\<close>\<close>

definition put_conversation :: handler where
  "put_conversation w req =
     (let caught = respond 500 (failure ''Failed to update conversation''
                     ''An error occurred while updating the conversation'');
          conversationId = param req ''conversationId'';
          title0 = field ''title'' (body req);
          isArchived = field ''isArchived'' (body req)
      in case req_user req of
           None \<Rightarrow> (caught, w)
         | Some u \<Rightarrow>
             (let updates = \<lparr>set_title = (if title0 \<noteq> JUndefined then Some title0 else None),
                             set_is_archived =
                               (if isArchived \<noteq> JUndefined then Some isArchived else None)\<rparr>
              in case updateConversation w conversationId (user_id u) updates of
                   (Inr (Some c), w') \<Rightarrow>
                     (respond 200 [(''success'', JBool True),
                                   (''conversation'', conversation_json c),
                                   (''message'', JStr ''Conversation updated successfully'')], w')
                 | (Inr None, w') \<Rightarrow> (not_found, w')
                 | (Inl e, w') \<Rightarrow> (caught, w')))"

text \<open>\<open>router.delete('/:conversationId')\<close>: the conversation is archived.\<close>

definition delete_conversation :: handler where
  "delete_conversation w req =
     (let caught = respond 500 (failure ''Failed to archive conversation''
                     ''An error occurred while archiving the conversation'');
          conversationId = param req ''conversationId''
      in case req_user req of
           None \<Rightarrow> (caught, w)
         | Some u \<Rightarrow>
             (case updateConversation w conversationId (user_id u)
                     \<lparr>set_title = None, set_is_archived = Some (JBool True)\<rparr> of
                (Inr (Some c), w') \<Rightarrow>
                  (respond 200 [(''success'', JBool True),
                                (''message'', JStr ''Conversation archived successfully'')], w')
              | (Inr None, w') \<Rightarrow> (not_found, w')
              | (Inl e, w') \<Rightarrow> (caught, w')))"

text \<open>
  \<open>router.post('/:conversationId/messages')\<close>: role and content are required; the
  ownership of the conversation is verified through \<open>supabase\<close>; the message is saved.
\<close>

definition post_message :: handler where
  "post_message w req =
     (let caught = respond 500 (failure ''Failed to save message''
                     ''An error occurred while saving the message'');
          conversationId = param req ''conversationId'';
          role0 = field ''role'' (body req);
          content0 = field ''content'' (body req);
          metadata0 = field ''metadata'' (body req)
      in case req_user req of
           None \<Rightarrow> (caught, w)
         | Some u \<Rightarrow>
             if \<not> truthy role0 \<or> \<not> truthy content0
             then (respond 400 (failure ''Missing required fields''
                                  ''Role and content are required''), w)
             else
               (case lookup_identifier conversation_scope ''supabase'' of
                  Inl e \<Rightarrow> (caught, w)
                | Inr bound \<Rightarrow>
                    (case await w (Store ''conversations'' ''select'')
                            (\<lambda>w0. (single (map conv_id
                                             (filter (\<lambda>c. conv_user_id c = user_id u)
                                                (filter (\<lambda>c. conv_id c = conversationId)
                                                   (conversations w0)))), w0)) of
                       (Inl e, w1) \<Rightarrow> (caught, w1)
                     | (Inr (Pg conv convError), w1) \<Rightarrow>
                         (case (convError, conv) of
                            (None, Some c) \<Rightarrow>
                              (case saveMessage w1 conversationId (user_id u) role0 content0
                                      (if truthy metadata0 then metadata0 else JObj []) of
                                 (Inr (Some m), w2) \<Rightarrow>
                                   (respond 201 [(''success'', JBool True),
                                                 (''message'', message_json m)], w2)
                               | (other, w2) \<Rightarrow> (caught, w2))
                          | other \<Rightarrow> (not_found, w1)))))"

text \<open>\<open>router.get('/:conversationId/messages')\<close>\<close>

definition get_messages :: handler where
  "get_messages w req =
     (let caught = respond 500 (failure ''Failed to fetch messages''
                     ''An error occurred while fetching the messages'');
          conversationId = param req ''conversationId''
      in case req_user req of
           None \<Rightarrow> (caught, w)
         | Some u \<Rightarrow>
             (case lookup_identifier conversation_scope ''supabase'' of
                Inl e \<Rightarrow> (caught, w)
              | Inr bound \<Rightarrow>
                  (case await w (Store ''conversations'' ''select'')
                          (\<lambda>w0. (single (map conv_id
                                           (filter (\<lambda>c. conv_user_id c = user_id u)
                                              (filter (\<lambda>c. conv_id c = conversationId)
                                                 (conversations w0)))), w0)) of
                     (Inl e, w1) \<Rightarrow> (caught, w1)
                   | (Inr (Pg conv convError), w1) \<Rightarrow>
                       (case (convError, conv) of
                          (None, Some c) \<Rightarrow>
                            (case getConversationMessages w1 conversationId (user_id u) of
                               (Inr (Some ms), w2) \<Rightarrow>
                                 (respond 200 [(''success'', JBool True),
                                               (''messages'', JArr (map message_json ms)),
                                               (''count'', JNum (int (length ms)))], w2)
                             | (other, w2) \<Rightarrow> (caught, w2))
                        | other \<Rightarrow> (not_found, w1)))))"

text \<open>\<open>router.get('/health')\<close>, the last route the module registers.\<close>

definition conversations_health :: handler where
  "conversations_health w req =
     (respond 200 [(''status'', JStr ''OK''), (''service'', JStr ''Conversations API''),
                   (''timestamp'', time_json (now w))], w)"

text \<open>The routes in the order the module registers them.\<close>

definition conversation_routes :: "route list" where
  "conversation_routes =
     [(GET, [], [authenticateUser], list_conversations),
      (POST, [], [authenticateUser, rateLimitByTier], create_conversation),
      (GET, [Param ''conversationId''], [authenticateUser], get_conversation),
      (PUT, [Param ''conversationId''], [authenticateUser], put_conversation),
      (DELETE, [Param ''conversationId''], [authenticateUser], delete_conversation),
      (POST, [Param ''conversationId'', Lit ''messages''],
         [authenticateUser, rateLimitByTier], post_message),
      (GET, [Param ''conversationId'', Lit ''messages''], [authenticateUser], get_messages),
      (GET, [Lit ''health''], [], conversations_health)]"

definition conversations_router :: "world \<Rightarrow> request \<Rightarrow> response option \<times> world" where
  "conversations_router = dispatch conversation_routes"

section \<open>routes/auth.js\<close>

text \<open>The identifiers the module binds; the client \<open>supabase\<close> is one of them.\<close>

definition auth_scope :: "string list" where
  "auth_scope =
     [''express'', ''router'', ''supabase'', ''getUserProfile'', ''createUserProfile'',
      ''authenticateUser'']"

text \<open>
  \<open>router.post('/signup')\<close>. The name sent to the provider is
  \<open>fullName || email.split('@')[0]\<close>, a TypeError when \<open>fullName\<close> is falsy and
  \<open>email\<close> is not a string.
\<close>

definition signup_name :: "json \<Rightarrow> json \<Rightarrow> json js" where
  "signup_name fullName email =
     (if truthy fullName then Inr fullName
      else (case email of
              JStr e \<Rightarrow> Inr (JStr (takeWhile (\<lambda>c. c \<noteq> CHR ''@'') e))
            | other \<Rightarrow> Inl (TypeError ''email.split is not a function'')))"

definition signup :: handler where
  "signup w req =
     (let caught = respond 500 (failure ''Internal server error''
                     ''An error occurred during signup'');
          email = field ''email'' (body req);
          password = field ''password'' (body req);
          fullName = field ''fullName'' (body req)
      in if \<not> truthy email \<or> \<not> truthy password
         then (respond 400 (failure ''Missing required fields''
                              ''Email and password are required''), w)
         else
           (case lookup_identifier auth_scope ''supabase'' of
              Inl e \<Rightarrow> (caught, w)
            | Inr bound \<Rightarrow>
                (case signup_name fullName email of
                   Inl e \<Rightarrow> (caught, w)
                 | Inr name \<Rightarrow>
                     (case await_auth w ''signUp'' of
                        (Inl e, w1) \<Rightarrow> (caught, w1)
                      | (Inr (AuthData du ds (Some m)), w1) \<Rightarrow>
                          (respond 400 (failure ''Signup failed'' m), w1)
                      | (Inr (AuthData None ds None), w1) \<Rightarrow>
                          (respond 400 (failure ''Signup failed''
                                          ''Failed to create user account''), w1)
                      | (Inr (AuthData (Some u) ds None), w1) \<Rightarrow>
                          (case getUserProfile w1 (user_id u) of
                             (Inl e, w2) \<Rightarrow> (caught, w2)
                           | (Inr (Some p), w2) \<Rightarrow>
                               (respond 201 [(''success'', JBool True),
                                             (''message'', JStr ''User created successfully''),
                                             (''user'', user_summary u),
                                             (''profile'', profile_json p),
                                             (''session'', ds)], w2)
                           | (Inr None, w2) \<Rightarrow>
                               (case createUserProfile w2 u of
                                  (Inl e, w3) \<Rightarrow> (caught, w3)
                                | (Inr p, w3) \<Rightarrow>
                                    (respond 201 [(''success'', JBool True),
                                                  (''message'', JStr ''User created successfully''),
                                                  (''user'', user_summary u),
                                                  (''profile'', nullable profile_json p),
                                                  (''session'', ds)], w3)))))))"

text \<open>\<open>router.post('/signin')\<close>\<close>

definition signin :: handler where
  "signin w req =
     (let caught = respond 500 (failure ''Internal server error''
                     ''An error occurred during signin'');
          email = field ''email'' (body req);
          password = field ''password'' (body req)
      in if \<not> truthy email \<or> \<not> truthy password
         then (respond 400 (failure ''Missing required fields''
                              ''Email and password are required''), w)
         else
           (case lookup_identifier auth_scope ''supabase'' of
              Inl e \<Rightarrow> (caught, w)
            | Inr bound \<Rightarrow>
                (case await_auth w ''signInWithPassword'' of
                   (Inl e, w1) \<Rightarrow> (caught, w1)
                 | (Inr (AuthData du ds (Some m)), w1) \<Rightarrow>
                     (respond 401 (failure ''Authentication failed'' m), w1)
                 | (Inr (AuthData None ds None), w1) \<Rightarrow> (caught, w1)
                 | (Inr (AuthData (Some u) ds None), w1) \<Rightarrow>
                     (case getUserProfile w1 (user_id u) of
                        (Inl e, w2) \<Rightarrow> (caught, w2)
                      | (Inr p, w2) \<Rightarrow>
                          (respond 200 [(''success'', JBool True),
                                        (''message'', JStr ''Signed in successfully''),
                                        (''user'', user_summary u),
                                        (''profile'', nullable profile_json p),
                                        (''session'', ds)], w2)))))"

text \<open>\<open>router.post('/signout')\<close>\<close>

definition signout :: handler where
  "signout w req =
     (let caught = respond 500 (failure ''Internal server error''
                     ''An error occurred during signout'')
      in case lookup_identifier auth_scope ''supabase'' of
           Inl e \<Rightarrow> (caught, w)
         | Inr bound \<Rightarrow>
             (case await_auth w ''signOut'' of
                (Inl e, w1) \<Rightarrow> (caught, w1)
              | (Inr (AuthData du ds (Some m)), w1) \<Rightarrow>
                  (respond 400 (failure ''Signout failed'' m), w1)
              | (Inr (AuthData du ds None), w1) \<Rightarrow>
                  (respond 200 [(''success'', JBool True),
                                (''message'', JStr ''Signed out successfully'')], w1)))"

text \<open>\<open>router.get('/profile')\<close>: what the middleware attached.\<close>

definition get_profile :: handler where
  "get_profile w req =
     (case req_user req of
        None \<Rightarrow>
          (respond 500 (failure ''Internal server error''
                          ''An error occurred while fetching profile''), w)
      | Some u \<Rightarrow>
          (respond 200 [(''success'', JBool True), (''user'', user_summary u),
                        (''profile'', nullable profile_json (req_profile req))], w))"

text \<open>
  \<open>router.put('/profile')\<close>. The update object starts empty, takes \<open>full_name\<close> and
  \<open>avatar_url\<close> when the body defines them, and always takes \<open>updated_at\<close> from the
  server's clock (\<open>None\<close> is an absent key). The store changes the columns the object
  names in the row of the user.
\<close>

record profile_updates =
  upd_full_name :: "json option"
  upd_avatar_url :: "json option"
  upd_updated_at :: "nat option"

definition build_profile_updates :: "json \<Rightarrow> json \<Rightarrow> nat \<Rightarrow> profile_updates" where
  "build_profile_updates fullName avatarUrl clock =
     (let updates0 = \<lparr>upd_full_name = None, upd_avatar_url = None, upd_updated_at = None\<rparr>;
          updates1 = (if fullName \<noteq> JUndefined then updates0\<lparr>upd_full_name := Some fullName\<rparr>
                      else updates0);
          updates2 = (if avatarUrl \<noteq> JUndefined then updates1\<lparr>upd_avatar_url := Some avatarUrl\<rparr>
                      else updates1)
      in updates2\<lparr>upd_updated_at := Some clock\<rparr>)"

definition apply_profile_updates :: "profile_updates \<Rightarrow> profile \<Rightarrow> profile" where
  "apply_profile_updates u p =
     p\<lparr>full_name := (case upd_full_name u of None \<Rightarrow> full_name p | Some v \<Rightarrow> v),
       avatar_url := (case upd_avatar_url u of None \<Rightarrow> avatar_url p | Some v \<Rightarrow> v),
       profile_updated_at :=
         (case upd_updated_at u of None \<Rightarrow> profile_updated_at p | Some t \<Rightarrow> t)\<rparr>"

definition put_profile :: handler where
  "put_profile w req =
     (let caught = respond 500 (failure ''Internal server error''
                     ''An error occurred while updating profile'');
          fullName = field ''fullName'' (body req);
          avatarUrl = field ''avatarUrl'' (body req)
      in case req_user req of
           None \<Rightarrow> (caught, w)
         | Some u \<Rightarrow>
             (let updates = build_profile_updates fullName avatarUrl (now w)
              in case lookup_identifier auth_scope ''supabase'' of
                   Inl e \<Rightarrow> (caught, w)
                 | Inr bound \<Rightarrow>
                     (case await w (Store ''user_profiles'' ''update'')
                             (\<lambda>w0. case update_single (\<lambda>p. profile_id p = user_id u)
                                          (apply_profile_updates updates) (user_profiles w0) of
                                      (r, rows) \<Rightarrow> (r, w0\<lparr>user_profiles := rows\<rparr>)) of
                        (Inl e, w1) \<Rightarrow> (caught, w1)
                      | (Inr (Pg d (Some m)), w1) \<Rightarrow>
                          (respond 400 (failure ''Profile update failed'' m), w1)
                      | (Inr (Pg d None), w1) \<Rightarrow>
                          (respond 200 [(''success'', JBool True),
                                        (''message'', JStr ''Profile updated successfully''),
                                        (''profile'', nullable profile_json d)], w1))))"

text \<open>\<open>router.post('/reset-password')\<close>\<close>

definition reset_password :: handler where
  "reset_password w req =
     (let caught = respond 500 (failure ''Internal server error''
                     ''An error occurred during password reset'');
          email = field ''email'' (body req)
      in if \<not> truthy email
         then (respond 400 (failure ''Missing email''
                              ''Email is required for password reset''), w)
         else
           (case lookup_identifier auth_scope ''supabase'' of
              Inl e \<Rightarrow> (caught, w)
            | Inr bound \<Rightarrow>
                (case await_auth w ''resetPasswordForEmail'' of
                   (Inl e, w1) \<Rightarrow> (caught, w1)
                 | (Inr (AuthData du ds (Some m)), w1) \<Rightarrow>
                     (respond 400 (failure ''Password reset failed'' m), w1)
                 | (Inr (AuthData du ds None), w1) \<Rightarrow>
                     (respond 200 [(''success'', JBool True),
                                   (''message'', JStr ''Password reset email sent successfully'')],
                      w1))))"

text \<open>\<open>router.put('/password')\<close>\<close>

definition put_password :: handler where
  "put_password w req =
     (let caught = respond 500 (failure ''Internal server error''
                     ''An error occurred while updating password'');
          newPassword = field ''newPassword'' (body req)
      in if \<not> truthy newPassword
         then (respond 400 (failure ''Missing password'' ''New password is required''), w)
         else
           (case lookup_identifier auth_scope ''supabase'' of
              Inl e \<Rightarrow> (caught, w)
            | Inr bound \<Rightarrow>
                (case await_auth w ''updateUser'' of
                   (Inl e, w1) \<Rightarrow> (caught, w1)
                 | (Inr (AuthData du ds (Some m)), w1) \<Rightarrow>
                     (respond 400 (failure ''Password update failed'' m), w1)
                 | (Inr (AuthData du ds None), w1) \<Rightarrow>
                     (respond 200 [(''success'', JBool True),
                                   (''message'', JStr ''Password updated successfully'')], w1))))"

text \<open>\<open>router.post('/refresh')\<close>\<close>

definition refresh :: handler where
  "refresh w req =
     (let caught = respond 500 (failure ''Internal server error''
                     ''An error occurred during token refresh'');
          refreshToken = field ''refreshToken'' (body req)
      in if \<not> truthy refreshToken
         then (respond 400 (failure ''Missing refresh token'' ''Refresh token is required''), w)
         else
           (case lookup_identifier auth_scope ''supabase'' of
              Inl e \<Rightarrow> (caught, w)
            | Inr bound \<Rightarrow>
                (case await_auth w ''refreshSession'' of
                   (Inl e, w1) \<Rightarrow> (caught, w1)
                 | (Inr (AuthData du ds (Some m)), w1) \<Rightarrow>
                     (respond 401 (failure ''Token refresh failed'' m), w1)
                 | (Inr (AuthData du ds None), w1) \<Rightarrow>
                     (respond 200 [(''success'', JBool True),
                                   (''message'', JStr ''Session refreshed successfully''),
                                   (''session'', ds)], w1))))"

text \<open>
  \<open>router.get('/health')\<close>:
  \<open>supabase_configured: !!(process.env.SUPABASE_URL && process.env.SUPABASE_ANON_KEY)\<close>.
\<close>

definition env_set :: "world \<Rightarrow> string \<Rightarrow> bool" where
  "env_set w k = (case env w k of None \<Rightarrow> False | Some v \<Rightarrow> v \<noteq> [])"

definition auth_health :: handler where
  "auth_health w req =
     (respond 200 [(''status'', JStr ''OK''), (''service'', JStr ''Authentication API''),
                   (''supabase_configured'',
                      JBool (env_set w ''SUPABASE_URL'' \<and> env_set w ''SUPABASE_ANON_KEY'')),
                   (''timestamp'', time_json (now w))], w)"

definition auth_routes :: "route list" where
  "auth_routes =
     [(POST, [Lit ''signup''], [], signup),
      (POST, [Lit ''signin''], [], signin),
      (POST, [Lit ''signout''], [authenticateUser], signout),
      (GET, [Lit ''profile''], [authenticateUser], get_profile),
      (PUT, [Lit ''profile''], [authenticateUser], put_profile),
      (POST, [Lit ''reset-password''], [], reset_password),
      (PUT, [Lit ''password''], [authenticateUser], put_password),
      (POST, [Lit ''refresh''], [], refresh),
      (GET, [Lit ''health''], [], auth_health)]"

definition auth_router :: "world \<Rightarrow> request \<Rightarrow> response option \<times> world" where
  "auth_router = dispatch auth_routes"

section \<open>Vocabulary of the properties\<close>

text \<open>A helper returned to its caller: it did not throw.\<close>

definition returned :: "'a js \<times> world \<Rightarrow> bool" where
  "returned r = (case fst r of Inl e \<Rightarrow> False | Inr v \<Rightarrow> True)"

text \<open>The next call to the store fails: an error reply or a rejected await.\<close>

definition store_down :: "world \<Rightarrow> bool" where
  "store_down w = (fate_now w \<noteq> Proceeds)"

text \<open>The next call to the auth provider fails: it rejects or replies with an error.\<close>

definition provider_down :: "world \<Rightarrow> bool" where
  "provider_down w =
     (case provider w (length (calls w)) of
        AuthRejects m \<Rightarrow> True
      | AuthResolves d \<Rightarrow> auth_error d \<noteq> None)"

text \<open>The rows of a user with a given conversation id: what an owner-scoped query matches.\<close>

definition owned :: "string \<Rightarrow> string \<Rightarrow> conversation \<Rightarrow> bool" where
  "owned conversationId userId c = (conv_id c = conversationId \<and> conv_user_id c = userId)"

section \<open>Example worlds\<close>

definition alice :: user where
  "alice = \<lparr>user_id = ''alice'', user_email = Some ''alice@example.org'',
             email_confirmed_at = JNull, meta_full_name = JUndefined\<rparr>"

text \<open>A user the provider knows by phone only: no email, no name in the metadata.\<close>

definition carol :: user where
  "carol = \<lparr>user_id = ''carol'', user_email = None,
             email_confirmed_at = JNull, meta_full_name = JUndefined\<rparr>"

definition alice_profile :: profile where
  "alice_profile =
     \<lparr>profile_id = ''alice'', profile_email = JStr ''alice@example.org'',
      full_name = JStr ''Alice'', avatar_url = JNull, subscription_tier = ''free'',
      api_usage_count = 3, api_usage_limit = 100, profile_updated_at = 1\<rparr>"

definition conv :: "string \<Rightarrow> string \<Rightarrow> nat \<Rightarrow> conversation" where
  "conv i owner t =
     \<lparr>conv_id = i, conv_user_id = owner, title = JStr ''Notes'', thread_id = JNull,
      is_archived = JBool False, conv_created_at = t, conv_updated_at = t\<rparr>"

definition msg :: "string \<Rightarrow> string \<Rightarrow> string \<Rightarrow> nat \<Rightarrow> message" where
  "msg i c owner t =
     \<lparr>msg_id = i, conversation_id = c, msg_user_id = owner, role = JStr ''user'',
      content = JStr ''hello'', metadata = JObj [], msg_created_at = t\<rparr>"

text \<open>
  A healthy backend: alice has a profile and the conversations c1 and c3, bob has c2;
  c1 holds two messages, stored out of order; every token is alice's.
\<close>

definition demo :: world where
  "demo =
     \<lparr>user_profiles = [alice_profile],
      conversations = [conv ''c1'' ''alice'' 4, conv ''c2'' ''bob'' 5, conv ''c3'' ''alice'' 6],
      messages = [msg ''m1'' ''c1'' ''alice'' 9, msg ''m2'' ''c1'' ''alice'' 8],
      api_usage = [],
      calls = [],
      fates = (\<lambda>n. Proceeds),
      provider = (\<lambda>n. AuthResolves (AuthData (Some alice) (JStr ''session'') None)),
      ids = (\<lambda>n. ''fresh''),
      now = 10,
      env = (\<lambda>k. None),
      over_limit = (\<lambda>tier. False)\<rparr>"

text \<open>The same tables behind a backend that is down.\<close>

definition down :: world where
  "down = demo\<lparr>fates := (\<lambda>n. Fails ''unavailable''),
                 provider := (\<lambda>n. AuthRejects ''unavailable'')\<rparr>"

text \<open>A store that answers its next call with an error and every later call well.\<close>

definition insert_refused :: world where
  "insert_refused = demo\<lparr>fates := (\<lambda>n. if n = 0 then Fails ''refused'' else Proceeds)\<rparr>"

text \<open>A store without any profile.\<close>

definition blank :: world where
  "blank = demo\<lparr>user_profiles := []\<rparr>"

definition request0 :: request where
  "request0 =
     \<lparr>req_method = GET, req_path = [], token = None, body = [], params = [],
      req_user = None, req_profile = None\<rparr>"

text \<open>An authenticated request of alice, as the middleware hands it to a handler.\<close>

definition as_alice :: "(string \<times> string) list \<Rightarrow> (string \<times> json) list \<Rightarrow> request" where
  "as_alice bound obj =
     request0\<lparr>token := Some ''token'', body := obj, params := bound,
              req_user := Some alice, req_profile := Some alice_profile\<rparr>"

section \<open>The client adapter\<close>

lemma try_catch_Inl: "try_catch (Inl e) h = h e"
  by (simp add: try_catch_def)

lemma returned_try_catch: "returned (try_catch b (\<lambda>e. Inr s), w)"
  by (cases b) (simp_all add: returned_def try_catch_def)

lemma verifyToken_returned: "returned (verifyToken w t)"
  by (simp add: verifyToken_def returned_try_catch split: prod.splits)

lemma getUserProfile_returned: "returned (getUserProfile w userId)"
  by (simp add: getUserProfile_def returned_try_catch split: prod.splits)

lemma createUserProfile_returned: "returned (createUserProfile w u)"
  by (simp add: createUserProfile_def returned_try_catch split: prod.splits sum.splits)

lemma updateApiUsage_returned: "returned (updateApiUsage w userId n c)"
  by (simp add: updateApiUsage_def returned_try_catch split: prod.splits sum.splits)

lemma checkApiQuota_returned: "returned (checkApiQuota w userId)"
  by (simp add: checkApiQuota_def returned_try_catch split: prod.splits)

lemma createConversation_returned: "returned (createConversation w userId ti th)"
  by (simp add: createConversation_def Let_def returned_try_catch split: prod.splits)

lemma getUserConversations_returned: "returned (getUserConversations w userId)"
  by (simp add: getUserConversations_def returned_try_catch split: prod.splits)

lemma updateConversation_returned: "returned (updateConversation w i userId up)"
  by (simp add: updateConversation_def returned_try_catch split: prod.splits)

lemma saveMessage_returned: "returned (saveMessage w i userId r c m)"
  by (simp add: saveMessage_def Let_def returned_try_catch split: prod.splits)

lemma getConversationMessages_returned: "returned (getConversationMessages w i userId)"
  by (simp add: getConversationMessages_def returned_try_catch split: prod.splits)

text \<open>A store that is down makes \<open>if (error) throw error\<close> throw, or the await itself.\<close>

lemma await_down:
  "store_down w \<Longrightarrow>
   data_or_throw (fst (await w c run)) =
     Inl (case fate_now w of Fails m \<Rightarrow> Raised m | Throws m \<Rightarrow> Rejected m | Proceeds \<Rightarrow> undefined)"
  by (simp add: store_down_def await_def data_or_throw_def split: fate.splits)

lemma await_down_catch:
  "store_down w \<Longrightarrow> try_catch (data_or_throw (fst (await w c run))) (\<lambda>e. Inr s) = Inr s"
  by (simp add: await_down try_catch_def)

lemma verifyToken_down: "provider_down w \<Longrightarrow> fst (verifyToken w t) = Inr None"
  by (auto simp: provider_down_def verifyToken_def await_auth_def try_catch_def
      split: auth_reply.splits auth_data.splits option.splits)

lemma getUserProfile_down: "store_down w \<Longrightarrow> fst (getUserProfile w userId) = Inr None"
  by (simp add: getUserProfile_def await_down_catch case_prod_beta)

lemma createUserProfile_down: "store_down w \<Longrightarrow> fst (createUserProfile w u) = Inr None"
  by (simp add: createUserProfile_def await_down_catch case_prod_beta try_catch_Inl
      split: sum.splits)

lemma createUserProfile_type_error:
  "new_profile_row w u = Inl e \<Longrightarrow> fst (createUserProfile w u) = Inr None"
  by (simp add: createUserProfile_def try_catch_Inl)

lemma checkApiQuota_down: "store_down w \<Longrightarrow> fst (checkApiQuota w userId) = Inr False"
  using getUserProfile_down[of w userId]
  by (simp add: checkApiQuota_def case_prod_beta try_catch_def)

lemma createConversation_down:
  "store_down w \<Longrightarrow> fst (createConversation w userId ti th) = Inr None"
  by (simp add: createConversation_def Let_def await_down_catch case_prod_beta)

lemma getUserConversations_down:
  "store_down w \<Longrightarrow> fst (getUserConversations w userId) = Inr (Some [])"
  by (simp add: getUserConversations_def await_down_catch case_prod_beta)

lemma updateConversation_down:
  "store_down w \<Longrightarrow> fst (updateConversation w i userId up) = Inr None"
  by (simp add: updateConversation_def await_down_catch case_prod_beta)

lemma saveMessage_down: "store_down w \<Longrightarrow> fst (saveMessage w i userId r c m) = Inr None"
  by (simp add: saveMessage_def Let_def await_down_catch case_prod_beta)

lemma getConversationMessages_down:
  "store_down w \<Longrightarrow> fst (getConversationMessages w i userId) = Inr (Some [])"
  by (simp add: getConversationMessages_def await_down_catch case_prod_beta)

text \<open>
  \<open>updateApiUsage\<close> never gets past \<open>supabase.sql\<close>: whether its insert went through,
  was answered with an error or rejected, the helper returns false.
\<close>

lemma updateApiUsage_false: "fst (updateApiUsage w userId n c) = Inr False"
  by (simp add: updateApiUsage_def call_member_def supabase_members_def try_catch_def
      split: prod.splits sum.splits)

text \<open>
  C4. No helper of the client adapter throws to its caller, whatever it is given and
  whatever the backend does: each of the ten returns normally. A failure below it comes
  back as the sentinel: null from \<open>verifyToken\<close> when the provider rejects or reports an
  error; null, false or the empty list from the helpers on the store when the store
  replies with an error or the await rejects; null from \<open>createUserProfile\<close> when
  building the row throws. \<open>updateApiUsage\<close> returns false on every failure of the
  store, an error reply to its insert included, since it returns false on every call:
  the client has no \<open>sql\<close> tag, so building the update object throws.
\<close>

theorem adapter_never_raises:
  "returned (verifyToken w t) \<and>
   returned (getUserProfile w userId) \<and>
   returned (createUserProfile w u) \<and>
   returned (updateApiUsage w userId tokensUsed costCents) \<and>
   returned (checkApiQuota w userId) \<and>
   returned (createConversation w userId ti th) \<and>
   returned (getUserConversations w userId) \<and>
   returned (updateConversation w conversationId userId updates) \<and>
   returned (saveMessage w conversationId userId r c m) \<and>
   returned (getConversationMessages w conversationId userId) \<and>
   (provider_down w \<longrightarrow> fst (verifyToken w t) = Inr None) \<and>
   (store_down w \<longrightarrow>
      fst (getUserProfile w userId) = Inr None \<and>
      fst (createUserProfile w u) = Inr None \<and>
      fst (updateApiUsage w userId tokensUsed costCents) = Inr False \<and>
      fst (checkApiQuota w userId) = Inr False \<and>
      fst (createConversation w userId ti th) = Inr None \<and>
      fst (getUserConversations w userId) = Inr (Some []) \<and>
      fst (updateConversation w conversationId userId updates) = Inr None \<and>
      fst (saveMessage w conversationId userId r c m) = Inr None \<and>
      fst (getConversationMessages w conversationId userId) = Inr (Some [])) \<and>
   ((\<exists>e. new_profile_row w u = Inl e) \<longrightarrow> fst (createUserProfile w u) = Inr None) \<and>
   fst (updateApiUsage w userId tokensUsed costCents) = Inr False"
proof -
  have never:
    "returned (verifyToken w t) \<and>
     returned (getUserProfile w userId) \<and>
     returned (createUserProfile w u) \<and>
     returned (updateApiUsage w userId tokensUsed costCents) \<and>
     returned (checkApiQuota w userId) \<and>
     returned (createConversation w userId ti th) \<and>
     returned (getUserConversations w userId) \<and>
     returned (updateConversation w conversationId userId updates) \<and>
     returned (saveMessage w conversationId userId r c m) \<and>
     returned (getConversationMessages w conversationId userId)"
    by (intro conjI verifyToken_returned getUserProfile_returned createUserProfile_returned
        updateApiUsage_returned checkApiQuota_returned createConversation_returned
        getUserConversations_returned updateConversation_returned saveMessage_returned
        getConversationMessages_returned)
  have store:
    "fst (getUserProfile w userId) = Inr None \<and>
     fst (createUserProfile w u) = Inr None \<and>
     fst (updateApiUsage w userId tokensUsed costCents) = Inr False \<and>
     fst (checkApiQuota w userId) = Inr False \<and>
     fst (createConversation w userId ti th) = Inr None \<and>
     fst (getUserConversations w userId) = Inr (Some []) \<and>
     fst (updateConversation w conversationId userId updates) = Inr None \<and>
     fst (saveMessage w conversationId userId r c m) = Inr None \<and>
     fst (getConversationMessages w conversationId userId) = Inr (Some [])"
    if "store_down w"
    using that
    by (intro conjI getUserProfile_down createUserProfile_down updateApiUsage_false
        checkApiQuota_down createConversation_down getUserConversations_down updateConversation_down
        saveMessage_down getConversationMessages_down)
  have row: "fst (createUserProfile w u) = Inr None" if "\<exists>e. new_profile_row w u = Inl e"
    using that createUserProfile_type_error by blast
  from never store row verifyToken_down updateApiUsage_false show ?thesis
    by blast
qed

theorem adapter_never_raises_witness:
  "provider_down down \<and> store_down down \<and> store_down insert_refused \<and>
   (\<exists>e. new_profile_row down carol = Inl e) \<and>
   fst (verifyToken down ''token'') = Inr None \<and>
   fst (getUserProfile down ''alice'') = Inr None \<and>
   fst (createUserProfile down carol) = Inr None \<and>
   fst (updateApiUsage down ''alice'' 1 0) = Inr False \<and>
   fst (updateApiUsage insert_refused ''alice'' 1 0) = Inr False \<and>
   fst (checkApiQuota down ''alice'') = Inr False \<and>
   fst (createConversation down ''alice'' JUndefined JUndefined) = Inr None \<and>
   fst (getUserConversations down ''alice'') = Inr (Some []) \<and>
   fst (updateConversation down ''c1'' ''alice''
          \<lparr>set_title = None, set_is_archived = Some (JBool True)\<rparr>) = Inr None \<and>
   fst (saveMessage down ''c1'' ''alice'' (JStr ''user'') (JStr ''hi'') JUndefined) = Inr None \<and>
   fst (getConversationMessages down ''c1'' ''alice'') = Inr (Some [])"
proof -
  have p: "provider_down down"
    by (simp add: provider_down_def down_def)
  have s: "store_down down"
    by (simp add: store_down_def fate_now_def down_def)
  have q: "store_down insert_refused"
    by (simp add: store_down_def fate_now_def insert_refused_def demo_def)
  have e: "\<exists>e. new_profile_row down carol = Inl e"
    by (simp add: new_profile_row_def carol_def)
  from p s q e
    adapter_never_raises[of down "''token''" "''alice''" carol 1 0 JUndefined JUndefined
      "''c1''" "\<lparr>set_title = None, set_is_archived = Some (JBool True)\<rparr>"
      "JStr ''user''" "JStr ''hi''" JUndefined]
    adapter_never_raises[of insert_refused "''token''" "''alice''" carol 1 0 JUndefined
      JUndefined "''c1''" "\<lparr>set_title = None, set_is_archived = Some (JBool True)\<rparr>"
      "JStr ''user''" "JStr ''hi''" JUndefined]
  show ?thesis by simp
qed

text \<open>What \<open>getUserProfile\<close> and \<open>checkApiQuota\<close> return, read off the store.\<close>

lemma getUserProfile_store:
  "fst (getUserProfile w userId) =
     Inr (if fate_now w = Proceeds
          then (case filter (\<lambda>p. profile_id p = userId) (user_profiles w) of
                  [p] \<Rightarrow> Some p
                | other \<Rightarrow> None)
          else None)"
  by (auto simp: getUserProfile_def await_def try_catch_def data_or_throw_def single_def
      log_call_def split: fate.splits prod.splits sum.splits pg.splits option.splits list.splits)

lemma checkApiQuota_store:
  "fst (checkApiQuota w userId) =
     Inr (fate_now w = Proceeds \<and>
          (\<exists>p. filter (\<lambda>p. profile_id p = userId) (user_profiles w) = [p] \<and>
               api_usage_count p < api_usage_limit p))"
  using getUserProfile_store[of w userId]
  by (auto simp: checkApiQuota_def try_catch_def
      split: prod.splits sum.splits option.splits list.splits if_splits)

text \<open>
  C8. For every user id, \<open>checkApiQuota\<close> returns true exactly when the lookup of the
  profile goes through, the store holds the user's profile (one row with that id) and
  its usage count is below its usage limit; without the profile, and when the lookup
  fails, it returns false.
\<close>

theorem checkApiQuota_iff:
  "fst (checkApiQuota w userId) =
     Inr (fate_now w = Proceeds \<and>
          (\<exists>p. filter (\<lambda>p. profile_id p = userId) (user_profiles w) = [p] \<and>
               api_usage_count p < api_usage_limit p))"
  by (rule checkApiQuota_store)

theorem checkApiQuota_iff_witness:
  "fst (checkApiQuota demo ''alice'') = Inr True \<and>
   fst (checkApiQuota (demo\<lparr>user_profiles := [alice_profile\<lparr>api_usage_count := 100\<rparr>]\<rparr>) ''alice'')
     = Inr False \<and>
   fst (checkApiQuota blank ''alice'') = Inr False \<and>
   fst (checkApiQuota down ''alice'') = Inr False"
  using checkApiQuota_iff[of demo "''alice''"]
    checkApiQuota_iff[of "demo\<lparr>user_profiles := [alice_profile\<lparr>api_usage_count := 100\<rparr>]\<rparr>" "''alice''"]
    checkApiQuota_iff[of blank "''alice''"]
    checkApiQuota_iff[of down "''alice''"]
  by (simp add: demo_def blank_def down_def alice_profile_def fate_now_def)

text \<open>
  C9. For every conversation and user, \<open>getConversationMessages\<close> returns a list whose
  creation times never decrease.
\<close>

theorem getConversationMessages_ascending:
  "\<exists>ms. fst (getConversationMessages w conversationId userId) = Inr (Some ms) \<and>
        sorted (map msg_created_at ms)"
  by (auto simp: getConversationMessages_def await_def try_catch_def data_or_throw_def order_def
      split: fate.splits prod.splits sum.splits pg.splits option.splits)

theorem getConversationMessages_ascending_witness:
  "fst (getConversationMessages demo ''c1'' ''alice'') =
     Inr (Some [msg ''m2'' ''c1'' ''alice'' 8, msg ''m1'' ''c1'' ''alice'' 9]) \<and>
   sorted (map msg_created_at [msg ''m2'' ''c1'' ''alice'' 8, msg ''m1'' ''c1'' ''alice'' 9])"
  using getConversationMessages_ascending[of demo "''c1''" "''alice''"]
  by (simp add: getConversationMessages_def await_def try_catch_def data_or_throw_def order_def
      demo_def fate_now_def log_call_def msg_def)

lemma createUserProfile_row:
  assumes "createUserProfile w u = (Inr (Some p), w')"
  shows "new_profile_row w u = Inr p \<and> user_profiles w' = user_profiles w @ [p]"
  using assms
  by (auto simp: createUserProfile_def await_def try_catch_def data_or_throw_def single_def
      log_call_def split: fate.splits prod.splits sum.splits pg.splits option.splits list.splits)

lemma new_profile_row_values:
  "new_profile_row w u = Inr p \<Longrightarrow>
     subscription_tier p = ''free'' \<and> api_usage_count p = 0 \<and> api_usage_limit p = 100 \<and>
     profile_id p = user_id u"
  by (auto simp: new_profile_row_def split: if_splits option.splits)

text \<open>
  C10. A profile that \<open>createUserProfile\<close> returns has the tier "free", the usage count
  0 and the usage limit 100, and is the row added to the store. Hence \<open>checkApiQuota\<close>
  returns true for a user whose profile is such a row: whenever the lookup gives that
  profile, and in particular right after the creation, when the user had no profile
  before and the lookup goes through.
\<close>

theorem fresh_profile_has_quota:
  assumes "createUserProfile w u = (Inr (Some p), w')"
  shows "subscription_tier p = ''free'' \<and> api_usage_count p = 0 \<and> api_usage_limit p = 100 \<and>
         p \<in> set (user_profiles w') \<and>
         (\<forall>w2 userId. fst (getUserProfile w2 userId) = Inr (Some p) \<longrightarrow>
                       fst (checkApiQuota w2 userId) = Inr True) \<and>
         ((\<forall>q \<in> set (user_profiles w). profile_id q \<noteq> user_id u) \<and> fate_now w' = Proceeds \<longrightarrow>
            fst (checkApiQuota w' (user_id u)) = Inr True)"
proof -
  from assms have row: "new_profile_row w u = Inr p"
    and tables: "user_profiles w' = user_profiles w @ [p]"
    using createUserProfile_row by blast+
  from row have vals: "subscription_tier p = ''free''" "api_usage_count p = 0"
    "api_usage_limit p = 100" "profile_id p = user_id u"
    using new_profile_row_values by blast+
  have stored: "p \<in> set (user_profiles w')"
    by (simp add: tables)
  have looked_up: "fst (checkApiQuota w2 userId) = Inr True"
    if "fst (getUserProfile w2 userId) = Inr (Some p)" for w2 userId
    using that vals by (simp add: checkApiQuota_def try_catch_def case_prod_beta)
  have fresh: "fst (checkApiQuota w' (user_id u)) = Inr True"
    if none: "\<forall>q \<in> set (user_profiles w). profile_id q \<noteq> user_id u"
      and ok: "fate_now w' = Proceeds"
  proof -
    from none have "filter (\<lambda>q. profile_id q = user_id u) (user_profiles w) = []"
      by (simp add: filter_empty_conv)
    then have "filter (\<lambda>q. profile_id q = user_id u) (user_profiles w') = [p]"
      by (simp add: tables vals)
    with ok vals show ?thesis
      by (simp add: checkApiQuota_store)
  qed
  from vals stored looked_up fresh show ?thesis
    by blast
qed

theorem fresh_profile_has_quota_witness:
  "createUserProfile blank alice =
     (Inr (Some (alice_profile\<lparr>full_name := JStr ''alice'', api_usage_count := 0,
                                profile_updated_at := 10\<rparr>)),
      blank\<lparr>user_profiles := [alice_profile\<lparr>full_name := JStr ''alice'', api_usage_count := 0,
                                              profile_updated_at := 10\<rparr>],
            calls := [Store ''user_profiles'' ''insert'']\<rparr>) \<and>
   filter (\<lambda>q. profile_id q = user_id alice) (user_profiles blank) = [] \<and>
   fst (getUserProfile (snd (createUserProfile blank alice)) ''alice'') =
     Inr (Some (alice_profile\<lparr>full_name := JStr ''alice'', api_usage_count := 0,
                               profile_updated_at := 10\<rparr>)) \<and>
   fst (checkApiQuota (snd (createUserProfile blank alice)) ''alice'') = Inr True"
proof -
  let ?p = "alice_profile\<lparr>full_name := JStr ''alice'', api_usage_count := 0,
                          profile_updated_at := 10\<rparr>"
  let ?w' = "blank\<lparr>user_profiles := [?p], calls := [Store ''user_profiles'' ''insert'']\<rparr>"
  have made: "createUserProfile blank alice = (Inr (Some ?p), ?w')"
    by (simp add: createUserProfile_def new_profile_row_def await_def try_catch_def
        data_or_throw_def single_def log_call_def fate_now_def blank_def demo_def alice_def
        alice_profile_def)
  have none: "\<forall>q \<in> set (user_profiles blank). profile_id q \<noteq> user_id alice"
    by (simp add: blank_def)
  have ok: "fate_now ?w' = Proceeds"
    by (simp add: fate_now_def blank_def demo_def)
  have read: "fst (getUserProfile ?w' ''alice'') = Inr (Some ?p)"
    by (simp add: getUserProfile_store fate_now_def blank_def demo_def alice_profile_def)
  from fresh_profile_has_quota[OF made] none ok made read show ?thesis
    by (simp add: alice_def blank_def)
qed

section \<open>The auth routes\<close>

lemma signup_missing:
  "\<not> truthy (field ''email'' (body req)) \<or> \<not> truthy (field ''password'' (body req)) \<Longrightarrow>
   signup w req =
     (respond 400 (failure ''Missing required fields'' ''Email and password are required''), w)"
  by (simp add: signup_def Let_def)

text \<open>
  C5. Every POST /signup whose body lacks email or password (or carries a falsy one:
  the handler tests \<open>!email || !password\<close>) is answered 400, and the world comes back
  as it was: no call to the auth provider or to the store is logged, no table changes.
\<close>

theorem signup_requires_email_and_password:
  assumes "req_method req = POST" and "req_path req = [''signup'']"
    and "\<not> truthy (field ''email'' (body req)) \<or> \<not> truthy (field ''password'' (body req))"
  shows "auth_router w req =
           (Some (respond 400 (failure ''Missing required fields''
                                 ''Email and password are required'')), w)"
  using assms by (simp add: auth_router_def auth_routes_def signup_missing)

theorem signup_requires_email_and_password_witness:
  "req_method (request0\<lparr>req_method := POST, req_path := [''signup''],
                         body := [(''password'', JStr ''secret'')]\<rparr>) = POST \<and>
   map_of [(''password'', JStr ''secret'')] ''email'' = None \<and>
   \<not> truthy (field ''email'' [(''password'', JStr ''secret'')]) \<and>
   auth_router demo (request0\<lparr>req_method := POST, req_path := [''signup''],
                              body := [(''password'', JStr ''secret'')]\<rparr>) =
     (Some (respond 400 (failure ''Missing required fields''
                           ''Email and password are required'')), demo) \<and>
   calls (snd (auth_router demo (request0\<lparr>req_method := POST, req_path := [''signup''],
                                          body := [(''password'', JStr ''secret'')]\<rparr>))) = []"
  using signup_requires_email_and_password
          [of "request0\<lparr>req_method := POST, req_path := [''signup''],
                        body := [(''password'', JStr ''secret'')]\<rparr>" demo]
  by (simp add: request0_def field_def demo_def)

text \<open>What \<open>update_single\<close> leaves in the table.\<close>

lemma update_single_rows:
  "snd (update_single P f rs) =
     (if (\<exists>r. filter P rs = [r]) then map (\<lambda>x. if P x then f x else x) rs else rs)"
  by (auto simp: update_single_def split: list.splits)

lemma update_single_frame:
  assumes "\<And>x. g (f x) = g x"
  shows "map g (snd (update_single P f rs)) = map g rs"
  using assms by (simp add: update_single_rows)

lemma put_profile_rows:
  "user_profiles (snd (put_profile w req)) = user_profiles w \<or>
   (\<exists>u. req_user req = Some u \<and>
     user_profiles (snd (put_profile w req)) =
       snd (update_single (\<lambda>p. profile_id p = user_id u)
              (apply_profile_updates (build_profile_updates (field ''fullName'' (body req))
                 (field ''avatarUrl'' (body req)) (now w))) (user_profiles w)))"
  by (auto simp: put_profile_def Let_def lookup_identifier_def auth_scope_def await_def
      log_call_def split: option.splits fate.splits prod.splits sum.splits pg.splits)

lemma build_stamp: "upd_updated_at (build_profile_updates fullName avatarUrl t) = Some t"
  by (simp add: build_profile_updates_def Let_def)

lemma build_full_name:
  "upd_full_name (build_profile_updates fullName avatarUrl t) =
     (if fullName = JUndefined then None else Some fullName)"
  by (simp add: build_profile_updates_def Let_def)

lemma build_avatar_url:
  "upd_avatar_url (build_profile_updates fullName avatarUrl t) =
     (if avatarUrl = JUndefined then None else Some avatarUrl)"
  by (simp add: build_profile_updates_def Let_def)

text \<open>
  C7. In every PUT /profile the update object carries the server's timestamp. A field
  the body does not define is not written: without \<open>fullName\<close> no profile's full name
  changes, without \<open>avatarUrl\<close> no profile's avatar changes; and the handler never
  writes the id, the email, the tier or the usage counters.
\<close>

theorem put_profile_partial_update:
  "upd_updated_at (build_profile_updates (field ''fullName'' (body req))
       (field ''avatarUrl'' (body req)) (now w)) = Some (now w) \<and>
   (field ''fullName'' (body req) = JUndefined \<longrightarrow>
      map full_name (user_profiles (snd (put_profile w req))) = map full_name (user_profiles w)) \<and>
   (field ''avatarUrl'' (body req) = JUndefined \<longrightarrow>
      map avatar_url (user_profiles (snd (put_profile w req))) = map avatar_url (user_profiles w)) \<and>
   map (\<lambda>p. (profile_id p, profile_email p, subscription_tier p, api_usage_count p,
             api_usage_limit p))
       (user_profiles (snd (put_profile w req))) =
   map (\<lambda>p. (profile_id p, profile_email p, subscription_tier p, api_usage_count p,
             api_usage_limit p))
       (user_profiles w)"
proof -
  have name: "map full_name (user_profiles (snd (put_profile w req))) =
                map full_name (user_profiles w)"
    if "field ''fullName'' (body req) = JUndefined"
    using that put_profile_rows[of w req]
    by (auto simp: update_single_frame apply_profile_updates_def build_full_name)
  have avatar: "map avatar_url (user_profiles (snd (put_profile w req))) =
                  map avatar_url (user_profiles w)"
    if "field ''avatarUrl'' (body req) = JUndefined"
    using that put_profile_rows[of w req]
    by (auto simp: update_single_frame apply_profile_updates_def build_avatar_url)
  have rest:
    "map (\<lambda>p. (profile_id p, profile_email p, subscription_tier p, api_usage_count p,
               api_usage_limit p))
         (user_profiles (snd (put_profile w req))) =
     map (\<lambda>p. (profile_id p, profile_email p, subscription_tier p, api_usage_count p,
               api_usage_limit p))
         (user_profiles w)"
    using put_profile_rows[of w req]
    by (auto simp: update_single_frame apply_profile_updates_def)
  from name avatar rest build_stamp show ?thesis
    by blast
qed

theorem put_profile_partial_update_witness:
  "field ''fullName'' [(''avatarUrl'', JStr ''a.png'')] = JUndefined \<and>
   status (fst (put_profile demo (as_alice [] [(''avatarUrl'', JStr ''a.png'')]))) = 200 \<and>
   user_profiles (snd (put_profile demo (as_alice [] [(''avatarUrl'', JStr ''a.png'')]))) =
     [alice_profile\<lparr>avatar_url := JStr ''a.png'', profile_updated_at := 10\<rparr>] \<and>
   map full_name (user_profiles (snd (put_profile demo
                                        (as_alice [] [(''avatarUrl'', JStr ''a.png'')])))) =
     [JStr ''Alice'']"
  using put_profile_partial_update[of "as_alice [] [(''avatarUrl'', JStr ''a.png'')]" demo]
  by (simp add: put_profile_def Let_def lookup_identifier_def auth_scope_def await_def
      log_call_def fate_now_def update_single_def apply_profile_updates_def
      build_profile_updates_def respond_def as_alice_def request0_def demo_def alice_def
      alice_profile_def field_def)

section \<open>The conversation routes\<close>

lemma owned_filter: "(\<lambda>c. conv_id c = i \<and> conv_user_id c = u) = owned i u"
  by (simp add: owned_def fun_eq_iff)

text \<open>What \<open>updateConversation\<close> does, read off the store.\<close>

lemma updateConversation_some:
  assumes "fst (updateConversation w i u up) = Inr (Some c')"
  shows "(\<exists>c. filter (owned i u) (conversations w) = [c] \<and> c' = apply_conv_updates up c) \<and>
         conversations (snd (updateConversation w i u up)) =
           map (\<lambda>x. if owned i u x then apply_conv_updates up x else x) (conversations w)"
  using assms
  by (auto simp: updateConversation_def await_def try_catch_def data_or_throw_def log_call_def
      update_single_def single_def owned_filter
      split: fate.splits prod.splits sum.splits pg.splits option.splits list.splits)

lemma updateConversation_none:
  assumes "filter (owned i u) (conversations w) = []"
  shows "fst (updateConversation w i u up) = Inr None"
  using assms
  by (auto simp: updateConversation_def await_def try_catch_def data_or_throw_def log_call_def
      update_single_def single_def owned_filter
      split: fate.splits prod.splits sum.splits pg.splits option.splits list.splits)

lemma delete_conversation_status:
  assumes "req_user req = Some u"
  shows "status (fst (delete_conversation w req)) =
           (case fst (updateConversation w (param req ''conversationId'') (user_id u)
                        \<lparr>set_title = None, set_is_archived = Some (JBool True)\<rparr>) of
              Inr (Some c) \<Rightarrow> 200
            | Inr None \<Rightarrow> 404
            | Inl e \<Rightarrow> 500)"
  using assms
  by (auto simp: delete_conversation_def Let_def respond_def not_found_def
      split: prod.splits sum.splits option.splits)

lemma delete_conversation_world:
  assumes "req_user req = Some u"
  shows "snd (delete_conversation w req) =
           snd (updateConversation w (param req ''conversationId'') (user_id u)
                  \<lparr>set_title = None, set_is_archived = Some (JBool True)\<rparr>)"
  using assms
  by (auto simp: delete_conversation_def Let_def split: prod.splits sum.splits option.splits)

lemma getUserConversations_store:
  "fst (getUserConversations w u) =
     Inr (Some (if fate_now w = Proceeds
                then order conv_updated_at False
                       (filter (\<lambda>c. is_archived c = JBool False)
                          (filter (\<lambda>c. conv_user_id c = u) (conversations w)))
                else []))"
  by (auto simp: getUserConversations_def await_def try_catch_def data_or_throw_def log_call_def
      split: fate.splits prod.splits sum.splits pg.splits option.splits)

lemma list_conversations_body:
  assumes "req_user req = Some u"
  shows "\<exists>cs. fst (getUserConversations w (user_id u)) = Inr (Some cs) \<and>
          fst (list_conversations w req) =
            respond 200 [(''success'', JBool True),
                         (''conversations'', JArr (map conversation_json cs)),
                         (''count'', JNum (int (length cs)))]"
  using assms getUserConversations_store[of w "user_id u"]
  by (auto simp: list_conversations_def Let_def split: prod.splits sum.splits option.splits)

lemma listing_rows:
  assumes "fst (getUserConversations w u) = Inr (Some cs)"
  shows "\<forall>c \<in> set cs. conv_user_id c = u \<and> is_archived c = JBool False \<and>
                       c \<in> set (conversations w)"
  using assms getUserConversations_store[of w u]
  by (auto simp: order_def split: if_splits)

lemma listing_order:
  assumes "fst (getUserConversations w u) = Inr (Some cs)"
  shows "sorted (rev (map conv_updated_at cs))"
  using assms getUserConversations_store[of w u]
  by (auto simp: order_def rev_map split: if_splits)

text \<open>
  C6. For an authenticated DELETE /:conversationId: when the user owns no conversation
  with that id the answer is 404; when the answer is 200, the user did own one, its
  archived flag is now true and every other row is as before; and a GET / of that user
  on the resulting store answers 200 with a list that does not hold that id, holds only
  the user's unarchived conversations, and runs from the latest update to the earliest.
\<close>

theorem archive_then_list:
  assumes auth: "req_user req = Some u"
  shows "((\<forall>c \<in> set (conversations w). \<not> owned (param req ''conversationId'') (user_id u) c) \<longrightarrow>
            status (fst (delete_conversation w req)) = 404) \<and>
         (status (fst (delete_conversation w req)) = 200 \<longrightarrow>
            conversations (snd (delete_conversation w req)) =
              map (\<lambda>c. if owned (param req ''conversationId'') (user_id u) c
                       then c\<lparr>is_archived := JBool True\<rparr> else c) (conversations w) \<and>
            (\<exists>c \<in> set (conversations w). owned (param req ''conversationId'') (user_id u) c) \<and>
            (\<forall>req'. req_user req' = Some u \<longrightarrow>
               (\<exists>cs. fst (list_conversations (snd (delete_conversation w req)) req') =
                        respond 200 [(''success'', JBool True),
                                     (''conversations'', JArr (map conversation_json cs)),
                                     (''count'', JNum (int (length cs)))] \<and>
                     param req ''conversationId'' \<notin> conv_id ` set cs \<and>
                     (\<forall>c \<in> set cs. conv_user_id c = user_id u \<and> is_archived c = JBool False) \<and>
                     sorted (rev (map conv_updated_at cs)))))"
proof -
  let ?i = "param req ''conversationId''"
  let ?up = "\<lparr>set_title = None, set_is_archived = Some (JBool True)\<rparr>"
  let ?w' = "snd (delete_conversation w req)"
  have absent: "status (fst (delete_conversation w req)) = 404"
    if "\<forall>c \<in> set (conversations w). \<not> owned ?i (user_id u) c"
  proof -
    from that have "filter (owned ?i (user_id u)) (conversations w) = []"
      by (simp add: filter_empty_conv)
    then show ?thesis
      by (simp add: delete_conversation_status[OF auth] updateConversation_none)
  qed
  have archived_ok:
    "conversations ?w' =
       map (\<lambda>c. if owned ?i (user_id u) c then c\<lparr>is_archived := JBool True\<rparr> else c)
           (conversations w) \<and>
     (\<exists>c \<in> set (conversations w). owned ?i (user_id u) c) \<and>
     (\<forall>req'. req_user req' = Some u \<longrightarrow>
        (\<exists>cs. fst (list_conversations ?w' req') =
                 respond 200 [(''success'', JBool True),
                              (''conversations'', JArr (map conversation_json cs)),
                              (''count'', JNum (int (length cs)))] \<and>
              ?i \<notin> conv_id ` set cs \<and>
              (\<forall>c \<in> set cs. conv_user_id c = user_id u \<and> is_archived c = JBool False) \<and>
              sorted (rev (map conv_updated_at cs))))"
    if ok: "status (fst (delete_conversation w req)) = 200"
  proof -
    from ok obtain c' where some: "fst (updateConversation w ?i (user_id u) ?up) = Inr (Some c')"
      by (auto simp: delete_conversation_status[OF auth] split: sum.splits option.splits)
    from updateConversation_some[OF some] obtain c where
      one: "filter (owned ?i (user_id u)) (conversations w) = [c]" and
      rows: "conversations ?w' =
               map (\<lambda>x. if owned ?i (user_id u) x then apply_conv_updates ?up x else x)
                   (conversations w)"
      by (auto simp: delete_conversation_world[OF auth])
    have rows': "conversations ?w' =
                   map (\<lambda>c. if owned ?i (user_id u) c then c\<lparr>is_archived := JBool True\<rparr> else c)
                       (conversations w)"
      by (simp add: rows apply_conv_updates_def)
    from one have "c \<in> set (filter (owned ?i (user_id u)) (conversations w))"
      by simp
    then have ex: "\<exists>c \<in> set (conversations w). owned ?i (user_id u) c"
      by auto
    have archived: "is_archived x = JBool True"
      if "x \<in> set (conversations ?w')" and "owned ?i (user_id u) x" for x
      using that by (auto simp: rows' owned_def split: if_splits)
    have listing:
      "\<exists>cs. fst (list_conversations ?w' req') =
               respond 200 [(''success'', JBool True),
                            (''conversations'', JArr (map conversation_json cs)),
                            (''count'', JNum (int (length cs)))] \<and>
            ?i \<notin> conv_id ` set cs \<and>
            (\<forall>c \<in> set cs. conv_user_id c = user_id u \<and> is_archived c = JBool False) \<and>
            sorted (rev (map conv_updated_at cs))"
      if r: "req_user req' = Some u" for req'
    proof -
      from list_conversations_body[OF r, of ?w'] obtain cs where
        g: "fst (getUserConversations ?w' (user_id u)) = Inr (Some cs)" and
        l: "fst (list_conversations ?w' req') =
              respond 200 [(''success'', JBool True),
                           (''conversations'', JArr (map conversation_json cs)),
                           (''count'', JNum (int (length cs)))]"
        by blast
      note rows_of = listing_rows[OF g]
      have "?i \<notin> conv_id ` set cs"
      proof
        assume "?i \<in> conv_id ` set cs"
        then obtain x where x: "x \<in> set cs" "conv_id x = ?i"
          by auto
        with rows_of have "owned ?i (user_id u) x" "x \<in> set (conversations ?w')"
          "is_archived x = JBool False"
          by (auto simp: owned_def)
        with archived show False
          by auto
      qed
      with l rows_of listing_order[OF g] show ?thesis
        by blast
    qed
    from rows' ex listing show ?thesis
      by blast
  qed
  from absent archived_ok show ?thesis
    by blast
qed

theorem archive_then_list_witness:
  "req_user (as_alice [(''conversationId'', ''c2'')] []) = Some alice \<and>
   filter (owned ''c2'' ''alice'') (conversations demo) = [] \<and>
   status (fst (delete_conversation demo (as_alice [(''conversationId'', ''c2'')] []))) = 404 \<and>
   status (fst (delete_conversation demo (as_alice [(''conversationId'', ''c1'')] []))) = 200 \<and>
   fst (list_conversations
          (snd (delete_conversation demo (as_alice [(''conversationId'', ''c1'')] [])))
          (as_alice [] [])) =
     respond 200 [(''success'', JBool True),
                  (''conversations'', JArr [conversation_json (conv ''c3'' ''alice'' 6)]),
                  (''count'', JNum 1)]"
  using archive_then_list[of "as_alice [(''conversationId'', ''c2'')] []" alice demo]
    archive_then_list[of "as_alice [(''conversationId'', ''c1'')] []" alice demo]
  by (simp add: delete_conversation_def list_conversations_def updateConversation_def
      getUserConversations_def await_def try_catch_def data_or_throw_def log_call_def fate_now_def
      update_single_def single_def order_def apply_conv_updates_def Let_def respond_def
      not_found_def param_def owned_def as_alice_def request0_def demo_def alice_def conv_def)

text \<open>
  The three handlers that name \<open>supabase\<close>: the module does not bind it, so the
  reference throws, the handler's catch answers 500, and nothing reaches the store.
\<close>

lemma get_conversation_caught:
  "get_conversation w req =
     (respond 500 (failure ''Failed to fetch conversation''
                     ''An error occurred while fetching the conversation''), w)"
  by (simp add: get_conversation_def Let_def lookup_identifier_def conversation_scope_def
      split: option.splits)

lemma get_conversation_route:
  assumes "req_method req = GET" and "req_path req = [i]" and "i \<noteq> []"
  shows "conversations_router w req =
           (case run_chain [authenticateUser] get_conversation w
                   (req\<lparr>params := [(''conversationId'', i)]\<rparr>) of
              (r, w') \<Rightarrow> (Some r, w'))"
  using assms by (simp add: conversations_router_def conversation_routes_def)

text \<open>
  C1. The specification has GET /:conversationId answer 404 when the caller owns no
  such conversation and 200 with the conversation, its messages and their count
  otherwise. The handler answers 500 to every request and leaves the world as it was:
  it reads the conversation through \<open>supabase\<close>, which routes/conversations.js does not
  bind.
\<close>

theorem get_conversation_unbound_client:
  "get_conversation w req =
     (respond 500 (failure ''Failed to fetch conversation''
                     ''An error occurred while fetching the conversation''), w)"
  by (rule get_conversation_caught)

theorem get_conversation_unbound_client_witness:
  "(\<exists>c \<in> set (conversations demo). owned ''c1'' ''alice'' c) \<and>
   status (fst (get_conversation demo (as_alice [(''conversationId'', ''c1'')] []))) = 500 \<and>
   filter (owned ''c2'' ''alice'') (conversations demo) = [] \<and>
   status (fst (get_conversation demo (as_alice [(''conversationId'', ''c2'')] []))) = 500"
  using get_conversation_unbound_client[of demo "as_alice [(''conversationId'', ''c1'')] []"]
    get_conversation_unbound_client[of demo "as_alice [(''conversationId'', ''c2'')] []"]
  by (simp add: respond_def owned_def demo_def conv_def)

text \<open>
  C3. The specification has POST /:conversationId/messages answer 404 when the caller
  does not own the conversation, without creating a message. With role and content
  present the handler answers 500 to every authenticated request: the ownership check
  goes through the unbound \<open>supabase\<close>. The world comes back as it was, so no message
  row is created.
\<close>

theorem post_message_unbound_client:
  assumes "req_user req = Some u" and "truthy (field ''role'' (body req))"
    and "truthy (field ''content'' (body req))"
  shows "post_message w req =
           (respond 500 (failure ''Failed to save message''
                           ''An error occurred while saving the message''), w)"
  using assms
  by (simp add: post_message_def Let_def lookup_identifier_def conversation_scope_def)

theorem post_message_unbound_client_witness:
  "req_user (as_alice [(''conversationId'', ''c2'')]
               [(''role'', JStr ''user''), (''content'', JStr ''hi'')]) = Some alice \<and>
   filter (owned ''c2'' ''alice'') (conversations demo) = [] \<and>
   status (fst (post_message demo
     (as_alice [(''conversationId'', ''c2'')]
        [(''role'', JStr ''user''), (''content'', JStr ''hi'')]))) = 500 \<and>
   messages (snd (post_message demo
     (as_alice [(''conversationId'', ''c2'')]
        [(''role'', JStr ''user''), (''content'', JStr ''hi'')]))) = messages demo"
  using post_message_unbound_client
          [of "as_alice [(''conversationId'', ''c2'')]
                 [(''role'', JStr ''user''), (''content'', JStr ''hi'')]" alice demo]
  by (simp add: respond_def owned_def demo_def conv_def as_alice_def request0_def field_def)

text \<open>The authentication middleware halts with 401 only, and always without a token.\<close>

lemma authenticateUser_halts:
  "fst (authenticateUser w req) = Halt r \<Longrightarrow> status r = 401"
  by (auto simp: authenticateUser_def respond_def split: option.splits prod.splits sum.splits)

lemma authenticateUser_no_token:
  "token req = None \<Longrightarrow> \<exists>r. authenticateUser w req = (Halt r, w) \<and> status r = 401"
  by (simp add: authenticateUser_def respond_def)

text \<open>
  Whatever middleware guards \<open>get_conversation\<close>: the answer is the middleware's own,
  or 500.
\<close>

lemma guarded_get_conversation:
  "fst (mw w req) = Halt (fst (run_chain [mw] get_conversation w req)) \<or>
   (\<exists>req'. fst (mw w req) = Next req') \<and>
     status (fst (run_chain [mw] get_conversation w req)) = 500"
  by (cases "mw w req"; cases "fst (mw w req)")
     (auto simp: get_conversation_caught respond_def)

lemma auth_health_route:
  assumes "req_method req = GET" and "req_path req = [''health'']"
  shows "auth_router w req = (case auth_health w (req\<lparr>params := []\<rparr>) of (r, w') \<Rightarrow> (Some r, w'))"
  using assms by (simp add: auth_router_def auth_routes_def)

text \<open>
  C2. The specification has GET /health answer 200 with status "OK" on both services,
  whatever the authentication state. The auth router does. The conversation router
  never does: it registers \<open>/:conversationId\<close> before \<open>/health\<close>, so the request is
  taken by the conversation route with the id "health"; that route's authentication
  answers 401 (always so without a token), and past it the handler answers 500.
\<close>

theorem health_routes:
  assumes "req_method req = GET" and "req_path req = [''health'']"
  shows "(\<exists>r. fst (auth_router w req) = Some r \<and> status r = 200 \<and>
              field ''status'' (json_body r) = JStr ''OK'') \<and>
         (\<exists>r. fst (conversations_router w req) = Some r \<and>
              (status r = 401 \<or> status r = 500) \<and>
              (token req = None \<longrightarrow> status r = 401))"
proof -
  have a: "\<exists>r. fst (auth_router w req) = Some r \<and> status r = 200 \<and>
              field ''status'' (json_body r) = JStr ''OK''"
    by (simp add: auth_health_route[OF assms] auth_health_def respond_def field_def)
  let ?req = "req\<lparr>params := [(''conversationId'', ''health'')]\<rparr>"
  have route: "conversations_router w req =
                 (case run_chain [authenticateUser] get_conversation w ?req of
                    (r, w') \<Rightarrow> (Some r, w'))"
    using assms by (simp add: get_conversation_route)
  obtain s w1 where step: "authenticateUser w ?req = (s, w1)"
    by (cases "authenticateUser w ?req")
  have b: "\<exists>r. fst (conversations_router w req) = Some r \<and>
              (status r = 401 \<or> status r = 500) \<and>
              (token req = None \<longrightarrow> status r = 401)"
  proof (cases s)
    case (Halt r)
    with step have "status r = 401"
      using authenticateUser_halts[of w ?req r] by simp
    with Halt step show ?thesis
      by (simp add: route)
  next
    case (Next req')
    with step have "token req \<noteq> None"
      using authenticateUser_no_token[of ?req w] by auto
    with Next step show ?thesis
      by (simp add: route get_conversation_caught respond_def)
  qed
  from a b show ?thesis
    by blast
qed

theorem health_routes_witness:
  "req_method (request0\<lparr>req_path := [''health'']\<rparr>) = GET \<and>
   token (request0\<lparr>req_path := [''health'']\<rparr>) = None \<and>
   map_option status (fst (auth_router demo (request0\<lparr>req_path := [''health'']\<rparr>))) = Some 200 \<and>
   map_option status (fst (conversations_router demo (request0\<lparr>req_path := [''health'']\<rparr>))) =
     Some 401 \<and>
   map_option status (fst (conversations_router demo
      (request0\<lparr>req_path := [''health''], token := Some ''token''\<rparr>))) = Some 500"
  using health_routes[of "request0\<lparr>req_path := [''health'']\<rparr>" demo]
    health_routes[of "request0\<lparr>req_path := [''health''], token := Some ''token''\<rparr>" demo]
  by (simp add: auth_router_def auth_routes_def auth_health_def conversations_router_def
      conversation_routes_def authenticateUser_def verifyToken_def getUserProfile_def
      await_auth_def await_def try_catch_def data_or_throw_def single_def log_call_def
      fate_now_def get_conversation_def lookup_identifier_def conversation_scope_def Let_def
      respond_def request0_def demo_def alice_def alice_profile_def)

end
